theory Spec2Isabelle
  imports Main
begin

section \<open>The speaker daemon of \<^verbatim>\<open>src/main.py\<close>\<close>

text \<open>
  The daemon couples the playback state of a Chromecast to the power state of smart-plug
  speakers. Two classes carry the logic: \<^verbatim>\<open>SpeakerAccess\<close> (one device handle with a lazily
  created session) and \<^verbatim>\<open>SpeakerThread\<close> (the playback state and the supervisory loop).
  \<^verbatim>\<open>MyController\<close> turns the receiver's callbacks into signals for the thread.

  Everything outside the module is an input of the model: the outcome of each call into the
  \<^verbatim>\<open>broadlink\<close> library, each reading of \<^verbatim>\<open>datetime.utcnow()\<close>, and the two properties
  \<^verbatim>\<open>is_active\<close> and \<^verbatim>\<open>is_playing\<close> of the media controller.
\<close>

subsection \<open>Constants and exceptions\<close>

definition TIMEOUT :: int where
  "TIMEOUT = 60"

text \<open>
  The exceptions the module tells apart. \<^verbatim>\<open>connect\<close> catches \<^verbatim>\<open>Exception\<close>, that is every
  constructor below; \<^verbatim>\<open>pvt_set_power_state\<close> catches \<^verbatim>\<open>IOError\<close> only; \<^verbatim>\<open>set_state\<close> and
  \<^verbatim>\<open>__init__\<close> catch \<^verbatim>\<open>SpeakerConnectError\<close> only. \<open>OtherException\<close> stands for any
  exception that is neither an \<^verbatim>\<open>IOError\<close> nor a \<^verbatim>\<open>SpeakerConnectError\<close>. The string of
  \<open>SpeakerConnectError\<close> is the message the exception was built with.
\<close>

datatype exn = IOError | OtherException | SpeakerConnectError string

definition power_state_as_text :: "bool \<Rightarrow> string" where
  "power_state_as_text state = (if state then ''on'' else ''off'')"

subsection \<open>The world outside the module\<close>

text \<open>
  A session is identified by the position, in the trace of library calls, of the \<^verbatim>\<open>sp2(...)\<close>
  call that built it.
\<close>

type_synonym session = nat

text \<open>The four calls the module makes into the device library, with their arguments.\<close>

datatype call =
    Sp2 string int "nat list" int
  | Auth session
  | Check_power session
  | Set_power session bool

text \<open>How a library call ended: it returned (with the power state, for a query) or raised.\<close>

datatype outcome = Returned | Returned_power bool | Raised exn

datatype level = INFO | WARNING

text \<open>
  The observable effects: the library calls made so far, each with its outcome, and the
  records handed to \<^verbatim>\<open>logging\<close>.
\<close>

record world =
  calls :: "(call \<times> outcome) list"
  logged :: "(level \<times> string) list"

text \<open>
  The behaviour of the device library, as a function of the position of the call in the trace
  (so the same operation may succeed once and fail later). \<open>None\<close> means the call returns;
  the value \<^verbatim>\<open>auth()\<close> returns is discarded by the module.
\<close>

record device =
  sp2 :: "nat \<Rightarrow> exn option"
  auth :: "nat \<Rightarrow> exn option"
  check_power :: "nat \<Rightarrow> exn + bool"
  set_power :: "nat \<Rightarrow> exn option"

definition record_call :: "call \<Rightarrow> outcome \<Rightarrow> world \<Rightarrow> world" where
  "record_call c out w = w\<lparr>calls := calls w @ [(c, out)]\<rparr>"

definition logging_info :: "string \<Rightarrow> world \<Rightarrow> world" where
  "logging_info msg w = w\<lparr>logged := logged w @ [(INFO, msg)]\<rparr>"

definition logging_warning :: "string \<Rightarrow> world \<Rightarrow> world" where
  "logging_warning msg w = w\<lparr>logged := logged w @ [(WARNING, msg)]\<rparr>"

text \<open>The library calls a step added to the trace.\<close>

definition new_calls :: "world \<Rightarrow> world \<Rightarrow> (call \<times> outcome) list" where
  "new_calls w w' = drop (length (calls w)) (calls w')"

subsection \<open>\<^verbatim>\<open>SpeakerAccess\<close>: one device handle\<close>

text \<open>
  The fields of the class; \<open>priv_sp\<close> is \<^verbatim>\<open>self._sp\<close>, \<open>None\<close> for Python's \<^verbatim>\<open>None\<close>. A session
  object is always truthy, so \<^verbatim>\<open>not self._sp\<close> is \<open>priv_sp h = None\<close>.
\<close>

record SpeakerAccess =
  name :: string
  host :: string
  port :: int
  mac :: "nat list"
  devtype :: int
  priv_sp :: "session option"

text \<open>
  \<^verbatim>\<open>connect\<close>: the session is stored as soon as the constructor \<^verbatim>\<open>sp2(...)\<close> returns, before
  \<^verbatim>\<open>auth()\<close> is called on it. Any exception of either call becomes
  \<^verbatim>\<open>SpeakerConnectError("Connection error")\<close>.
\<close>

definition connect :: "device \<Rightarrow> SpeakerAccess \<Rightarrow> world \<Rightarrow> (exn + unit) \<times> SpeakerAccess \<times> world" where
  "connect d h w =
     (let n = length (calls w); c = Sp2 (host h) (port h) (mac h) (devtype h) in
      case sp2 d n of
        Some e \<Rightarrow> (Inl (SpeakerConnectError ''Connection error''), h, record_call c (Raised e) w)
      | None \<Rightarrow>
          (let h1 = h\<lparr>priv_sp := Some n\<rparr>; w1 = record_call c Returned w in
           case auth d (length (calls w1)) of
             Some e \<Rightarrow>
               (Inl (SpeakerConnectError ''Connection error''), h1, record_call (Auth n) (Raised e) w1)
           | None \<Rightarrow>
               (Inr (), h1,
                logging_info (''Connected to '' @ name h1 @ '' speaker'')
                  (record_call (Auth n) Returned w1))))"

text \<open>The property \<^verbatim>\<open>sp\<close>: connect when no session is stored, then return \<^verbatim>\<open>self._sp\<close>.\<close>

definition sp :: "device \<Rightarrow> SpeakerAccess \<Rightarrow> world \<Rightarrow> (exn + session option) \<times> SpeakerAccess \<times> world" where
  "sp d h w =
     (if priv_sp h = None then
        (case connect d h w of
           (Inl e, h', w') \<Rightarrow> (Inl e, h', w')
         | (Inr u, h', w') \<Rightarrow> (Inr (priv_sp h'), h', w'))
      else (Inr (priv_sp h), h, w))"

text \<open>
  The two method calls on the value \<^verbatim>\<open>self.sp\<close> returned. On \<^verbatim>\<open>None\<close> Python raises
  \<^verbatim>\<open>AttributeError\<close>, which is not an \<^verbatim>\<open>IOError\<close>.
\<close>

definition sp_check_power :: "device \<Rightarrow> session option \<Rightarrow> world \<Rightarrow> (exn + bool) \<times> world" where
  "sp_check_power d x w =
     (case x of
        None \<Rightarrow> (Inl OtherException, w)
      | Some s \<Rightarrow>
          (case check_power d (length (calls w)) of
             Inl e \<Rightarrow> (Inl e, record_call (Check_power s) (Raised e) w)
           | Inr p \<Rightarrow> (Inr p, record_call (Check_power s) (Returned_power p) w)))"

definition sp_set_power :: "device \<Rightarrow> session option \<Rightarrow> bool \<Rightarrow> world \<Rightarrow> (exn + unit) \<times> world" where
  "sp_set_power d x state w =
     (case x of
        None \<Rightarrow> (Inl OtherException, w)
      | Some s \<Rightarrow>
          (case set_power d (length (calls w)) of
             Some e \<Rightarrow> (Inl e, record_call (Set_power s state) (Raised e) w)
           | None \<Rightarrow> (Inr (), record_call (Set_power s state) Returned w)))"

text \<open>The body of the \<^verbatim>\<open>try\<close> block of \<^verbatim>\<open>pvt_set_power_state\<close>.\<close>

definition pvt_try :: "device \<Rightarrow> bool \<Rightarrow> SpeakerAccess \<Rightarrow> world \<Rightarrow> (exn + unit) \<times> SpeakerAccess \<times> world" where
  "pvt_try d state h w =
     (case sp d h w of
        (Inl e, h1, w1) \<Rightarrow> (Inl e, h1, w1)
      | (Inr x, h1, w1) \<Rightarrow>
          (case sp_check_power d x w1 of
             (Inl e, w2) \<Rightarrow> (Inl e, h1, w2)
           | (Inr p, w2) \<Rightarrow>
               if p \<noteq> state then
                 (let w3 = logging_info
                             (''Turning '' @ power_state_as_text state @ '' '' @ name h1 @ '' speaker'') w2
                  in case sp d h1 w3 of
                       (Inl e, h4, w4) \<Rightarrow> (Inl e, h4, w4)
                     | (Inr y, h4, w4) \<Rightarrow>
                         (case sp_set_power d y state w4 of
                            (Inl e, w5) \<Rightarrow> (Inl e, h4, w5)
                          | (Inr u, w5) \<Rightarrow> (Inr (), h4, w5)))
               else (Inr (), h1, w2)))"

text \<open>
  \<^verbatim>\<open>pvt_set_power_state\<close>: the handler \<^verbatim>\<open>except IOError\<close> drops the session and raises
  \<^verbatim>\<open>SpeakerConnectError("Communication error")\<close>; every other exception passes through.
\<close>

definition pvt_set_power_state :: "device \<Rightarrow> bool \<Rightarrow> SpeakerAccess \<Rightarrow> world \<Rightarrow> (exn + unit) \<times> SpeakerAccess \<times> world" where
  "pvt_set_power_state d state h w =
     (case pvt_try d state h w of
        (Inl IOError, h', w') \<Rightarrow>
          (Inl (SpeakerConnectError ''Communication error''), h'\<lparr>priv_sp := None\<rparr>, w')
      | (Inl e, h', w') \<Rightarrow> (Inl e, h', w')
      | (Inr u, h', w') \<Rightarrow> (Inr u, h', w'))"

text \<open>\<^verbatim>\<open>set_state\<close>: a \<^verbatim>\<open>SpeakerConnectError\<close> is logged as a warning and swallowed.\<close>

definition set_state :: "device \<Rightarrow> bool \<Rightarrow> SpeakerAccess \<Rightarrow> world \<Rightarrow> (exn + unit) \<times> SpeakerAccess \<times> world" where
  "set_state d state h w =
     (case pvt_set_power_state d state h w of
        (Inl (SpeakerConnectError m), h', w') \<Rightarrow>
          (Inr (), h',
           logging_warning
             (''Could not turn '' @ power_state_as_text state @ '' '' @ name h' @ '' speaker: '' @ m) w')
      | (Inl e, h', w') \<Rightarrow> (Inl e, h', w')
      | (Inr u, h', w') \<Rightarrow> (Inr u, h', w'))"

text \<open>
  \<^verbatim>\<open>__init__\<close>: store the fields, then connect once; a \<^verbatim>\<open>SpeakerConnectError\<close> is logged
  as a warning. The result is the new handle, or the exception that escaped.
\<close>

definition SpeakerAccess_init ::
  "device \<Rightarrow> string \<Rightarrow> string \<Rightarrow> int \<Rightarrow> nat list \<Rightarrow> int \<Rightarrow> world \<Rightarrow> (exn + SpeakerAccess) \<times> world" where
  "SpeakerAccess_init d nm hst prt mc dt w =
     (let h = \<lparr>name = nm, host = hst, port = prt, mac = mc, devtype = dt, priv_sp = None\<rparr> in
      case connect d h w of
        (Inl (SpeakerConnectError m), h', w') \<Rightarrow>
          (Inr h', logging_warning (''Could not connect to '' @ name h' @ '' speaker: '' @ m) w')
      | (Inl e, h', w') \<Rightarrow> (Inl e, w')
      | (Inr u, h', w') \<Rightarrow> (Inr h', w'))"

subsection \<open>\<^verbatim>\<open>SpeakerThread\<close>: the playback state and the supervisory loop\<close>

text \<open>
  A reading of \<^verbatim>\<open>datetime.datetime.utcnow()\<close>, in microseconds (the resolution of
  \<^verbatim>\<open>datetime\<close>). The difference of two readings is a \<^verbatim>\<open>timedelta\<close>, which Python keeps
  normalised as days, seconds (from 0 to 86399) and microseconds; its attribute \<^verbatim>\<open>.seconds\<close>
  is the middle component.
\<close>

type_synonym time = int

definition timedelta_seconds :: "int \<Rightarrow> int" where
  "timedelta_seconds delta = (delta div 1000000) mod 86400"

definition PLAYING :: int where
  "PLAYING = 1"

definition STOPPED :: int where
  "STOPPED = 2"

definition INACTIVE :: int where
  "INACTIVE = 3"

text \<open>
  The fields \<^verbatim>\<open>_state\<close>, \<^verbatim>\<open>_state_changed\<close> and \<^verbatim>\<open>_event\<close> (the flag of the
  \<^verbatim>\<open>threading.Event\<close>).
\<close>

record SpeakerThread =
  priv_state :: int
  priv_state_changed :: "time option"
  priv_event :: bool

definition SpeakerThread_init :: SpeakerThread where
  "SpeakerThread_init = \<lparr>priv_state = 0, priv_state_changed = None, priv_event = False\<rparr>"

text \<open>
  \<^verbatim>\<open>SpeakerThread.set_state\<close>; \<open>now\<close> is the clock reading taken when the state differs.
\<close>

definition SpeakerThread_set_state :: "int \<Rightarrow> time \<Rightarrow> SpeakerThread \<Rightarrow> world \<Rightarrow> SpeakerThread \<times> world" where
  "SpeakerThread_set_state state now t w =
     (if priv_state t \<noteq> state then
        (t\<lparr>priv_state := state, priv_state_changed := Some now, priv_event := True\<rparr>,
         if state = PLAYING then logging_info ''Chromecast state changed to PLAYING'' w
         else if state = STOPPED then logging_info ''Chromecast state changed to STOPPED'' w
         else logging_info ''Chromecast state changed to INACTIVE'' w)
      else (t, w))"

definition signal_playing :: "time \<Rightarrow> SpeakerThread \<Rightarrow> world \<Rightarrow> SpeakerThread \<times> world" where
  "signal_playing now t w = SpeakerThread_set_state PLAYING now t w"

definition signal_stopped :: "time \<Rightarrow> SpeakerThread \<Rightarrow> world \<Rightarrow> SpeakerThread \<times> world" where
  "signal_stopped now t w = SpeakerThread_set_state STOPPED now t w"

definition signal_inactive :: "time \<Rightarrow> SpeakerThread \<Rightarrow> world \<Rightarrow> SpeakerThread \<times> world" where
  "signal_inactive now t w = SpeakerThread_set_state INACTIVE now t w"

definition state_changed_seconds_ago :: "time \<Rightarrow> SpeakerThread \<Rightarrow> int" where
  "state_changed_seconds_ago now t =
     (case priv_state_changed t of
        None \<Rightarrow> TIMEOUT + 1
      | Some changed \<Rightarrow> timedelta_seconds (now - changed))"

text \<open>The two methods of the remote that the loop calls.\<close>

datatype remote_call = switch_on | switch_off

text \<open>
  One pass of the body of \<^verbatim>\<open>while True\<close> in \<^verbatim>\<open>run\<close>, after \<^verbatim>\<open>self._event.wait(timeout=10)\<close>
  has returned: \<open>now\<close> is the clock reading of this pass, and the result names the method of
  the remote the pass called, if any.
\<close>

definition run_pass :: "time \<Rightarrow> SpeakerThread \<Rightarrow> SpeakerThread \<times> remote_call option" where
  "run_pass now t =
     (let t1 = (if priv_event t then t\<lparr>priv_event := False\<rparr> else t) in
      if priv_state t1 = PLAYING then (t1, Some switch_on)
      else if priv_state t1 = INACTIVE then (t1, Some switch_off)
      else if state_changed_seconds_ago now t1 > TIMEOUT then (t1, Some switch_off)
      else (t1, None))"

text \<open>
  \<^verbatim>\<open>run\<close> never returns. Its passes are driven here by the list of clock readings at which the
  wait returned, with no signal in between; the result lists what each pass called.
\<close>

fun run :: "time list \<Rightarrow> SpeakerThread \<Rightarrow> remote_call option list" where
  "run [] t = []"
| "run (now # polls) t = (case run_pass now t of (t', a) \<Rightarrow> a # run polls t')"

subsection \<open>\<^verbatim>\<open>MyController\<close>: the receiver's callbacks\<close>

text \<open>
  \<open>is_active\<close> and \<open>is_playing\<close> are the properties inherited from the library's media
  controller, read when a callback runs.
\<close>

record MyController =
  is_active :: bool
  is_playing :: bool
  speaker_thread :: SpeakerThread

definition signal_speakers :: "time \<Rightarrow> MyController \<Rightarrow> world \<Rightarrow> MyController \<times> world" where
  "signal_speakers now c w =
     (case (if \<not> is_active c then signal_inactive now (speaker_thread c) w
            else if is_playing c then signal_playing now (speaker_thread c) w
            else signal_stopped now (speaker_thread c) w) of
        (t', w') \<Rightarrow> (c\<lparr>speaker_thread := t'\<rparr>, w'))"

definition new_media_status :: "'s \<Rightarrow> time \<Rightarrow> MyController \<Rightarrow> world \<Rightarrow> MyController \<times> world" where
  "new_media_status status now c w = signal_speakers now c w"

definition new_cast_status :: "'s \<Rightarrow> time \<Rightarrow> MyController \<Rightarrow> world \<Rightarrow> MyController \<times> world" where
  "new_cast_status status now c w = signal_speakers now c w"

definition new_connection_status :: "'s \<Rightarrow> time \<Rightarrow> MyController \<Rightarrow> world \<Rightarrow> MyController \<times> world" where
  "new_connection_status status now c w = signal_speakers now c w"

text \<open>
  The derived signal in the words of the specification: Inactive if the receiver session is
  not active; else Playing if media is playing; else Stopped.
\<close>

definition derived_signal :: "bool \<Rightarrow> bool \<Rightarrow> int" where
  "derived_signal active playing =
     (if \<not> active then INACTIVE else if playing then PLAYING else STOPPED)"

text \<open>
  Calling \<^verbatim>\<open>set_state\<close> of the thread with the same state once per clock reading of the
  list, in order.
\<close>

fun signal_repeatedly :: "int \<Rightarrow> time list \<Rightarrow> SpeakerThread \<Rightarrow> world \<Rightarrow> SpeakerThread \<times> world" where
  "signal_repeatedly state [] t w = (t, w)"
| "signal_repeatedly state (now # nows) t w =
     (case SpeakerThread_set_state state now t w of (t', w') \<Rightarrow> signal_repeatedly state nows t' w')"

subsection \<open>\<^verbatim>\<open>SpeakerRemote\<close>: the group of speakers\<close>

text \<open>
  A configured speaker: its handle and, as the input of the model, the behaviour of its
  device.
\<close>

type_synonym speaker = "device \<times> SpeakerAccess"

text \<open>
  \<^verbatim>\<open>threading.Thread(target=speaker.set_state, args=(state,)).start()\<close>. The new thread runs
  \<^verbatim>\<open>set_state\<close>; an exception that leaves \<^verbatim>\<open>set_state\<close> ends that thread and is handed to the
  thread's exception hook, and \<^verbatim>\<open>start()\<close> returns to its caller in either case. The model
  runs the thread to its end at the point where it is started, which is one of the possible
  schedules, and keeps as the outcome of the thread the exception that ended it, if any.
\<close>

definition Thread_start_set_state ::
  "device \<Rightarrow> bool \<Rightarrow> SpeakerAccess \<Rightarrow> world \<Rightarrow> (exn + unit) \<times> exn option \<times> SpeakerAccess \<times> world" where
  "Thread_start_set_state d state h w =
     (case set_state d state h w of
        (Inl e, h', w') \<Rightarrow> (Inr (), Some e, h', w')
      | (Inr u, h', w') \<Rightarrow> (Inr (), None, h', w'))"

text \<open>
  \<^verbatim>\<open>set_power_state\<close>: the \<^verbatim>\<open>for\<close> loop over the speakers, one thread each. The result is what
  the caller sees, then the outcomes of the threads started, the speakers and the world.
\<close>

fun SpeakerRemote_set_power_state ::
  "bool \<Rightarrow> speaker list \<Rightarrow> world \<Rightarrow> (exn + unit) \<times> exn option list \<times> speaker list \<times> world" where
  "SpeakerRemote_set_power_state state [] w = (Inr (), [], [], w)"
| "SpeakerRemote_set_power_state state ((d, h) # rest) w =
     (case Thread_start_set_state d state h w of
        (Inl e, x, h', w') \<Rightarrow> (Inl e, [x], (d, h') # rest, w')
      | (Inr u, x, h', w') \<Rightarrow>
          (case SpeakerRemote_set_power_state state rest w' of
             (r, xs, rest', w'') \<Rightarrow> (r, x # xs, (d, h') # rest', w'')))"

definition SpeakerRemote_switch_on ::
  "speaker list \<Rightarrow> world \<Rightarrow> (exn + unit) \<times> exn option list \<times> speaker list \<times> world" where
  "SpeakerRemote_switch_on speakers w = SpeakerRemote_set_power_state True speakers w"

definition SpeakerRemote_switch_off ::
  "speaker list \<Rightarrow> world \<Rightarrow> (exn + unit) \<times> exn option list \<times> speaker list \<times> world" where
  "SpeakerRemote_switch_off speakers w = SpeakerRemote_set_power_state False speakers w"

text \<open>
  A pass of the loop of \<^verbatim>\<open>run\<close> with the call on the remote carried out: the result of the
  pass as the loop sees it, the thread, the outcomes of the threads started, the speakers and
  the world.
\<close>

definition run_pass_remote ::
  "time \<Rightarrow> SpeakerThread \<Rightarrow> speaker list \<Rightarrow> world \<Rightarrow>
   (exn + unit) \<times> SpeakerThread \<times> exn option list \<times> speaker list \<times> world" where
  "run_pass_remote now t speakers w =
     (case run_pass now t of
        (t', None) \<Rightarrow> (Inr (), t', [], speakers, w)
      | (t', Some switch_on) \<Rightarrow>
          (case SpeakerRemote_switch_on speakers w of
             (r, xs, speakers', w') \<Rightarrow> (r, t', xs, speakers', w'))
      | (t', Some switch_off) \<Rightarrow>
          (case SpeakerRemote_switch_off speakers w of
             (r, xs, speakers', w') \<Rightarrow> (r, t', xs, speakers', w')))"

subsection \<open>Reading the trace and the log\<close>

text \<open>The warnings a step added to the log.\<close>

definition new_warnings :: "world \<Rightarrow> world \<Rightarrow> (level \<times> string) list" where
  "new_warnings w w' = filter (\<lambda>r. fst r = WARNING) (drop (length (logged w)) (logged w'))"

text \<open>A library call of \<^verbatim>\<open>connect\<close> that raised: the constructor or the authentication.\<close>

fun connect_failed :: "call \<times> outcome \<Rightarrow> bool" where
  "connect_failed (Sp2 hst prt mc dt, Raised e) = True"
| "connect_failed (Auth s, Raised e) = True"
| "connect_failed x = False"

text \<open>A library call that raised.\<close>

fun raised :: "call \<times> outcome \<Rightarrow> bool" where
  "raised (c, Raised e) = True"
| "raised x = False"

text \<open>A power query or a power write that raised an \<^verbatim>\<open>IOError\<close>.\<close>

fun io_failed :: "call \<times> outcome \<Rightarrow> bool" where
  "io_failed (Check_power s, Raised IOError) = True"
| "io_failed (Set_power s b, Raised IOError) = True"
| "io_failed x = False"

subsection \<open>Concrete inputs\<close>

definition world0 :: world where
  "world0 = \<lparr>calls = [], logged = []\<rparr>"

definition handle0 :: SpeakerAccess where
  "handle0 = \<lparr>name = ''left'', host = ''10.0.0.5'', port = 80, mac = [52, 234, 52, 1, 2, 3],
               devtype = 10001, priv_sp = None\<rparr>"

definition handle1 :: SpeakerAccess where
  "handle1 = \<lparr>name = ''right'', host = ''10.0.0.6'', port = 80, mac = [52, 234, 52, 4, 5, 6],
               devtype = 10001, priv_sp = None\<rparr>"

text \<open>A device on which every call succeeds and which reports the power as on.\<close>

definition dev_on :: device where
  "dev_on = \<lparr>sp2 = (\<lambda>n. None), auth = (\<lambda>n. None), check_power = (\<lambda>n. Inr True),
             set_power = (\<lambda>n. None)\<rparr>"

text \<open>A device that cannot be reached: the constructor raises.\<close>

definition dev_unreachable :: device where
  "dev_unreachable = \<lparr>sp2 = (\<lambda>n. Some IOError), auth = (\<lambda>n. None), check_power = (\<lambda>n. Inr False),
                      set_power = (\<lambda>n. None)\<rparr>"

text \<open>A device that rejects the authentication; its other calls return, the power is off.\<close>

definition dev_auth_rejects :: device where
  "dev_auth_rejects = \<lparr>sp2 = (\<lambda>n. None), auth = (\<lambda>n. Some OtherException),
                       check_power = (\<lambda>n. Inr False), set_power = (\<lambda>n. None)\<rparr>"

text \<open>A device whose power query fails with an I/O error.\<close>

definition dev_io_fails :: device where
  "dev_io_fails = \<lparr>sp2 = (\<lambda>n. None), auth = (\<lambda>n. None), check_power = (\<lambda>n. Inl IOError),
                   set_power = (\<lambda>n. None)\<rparr>"

text \<open>A device whose power query raises an exception that is not an \<^verbatim>\<open>IOError\<close>.\<close>

definition dev_query_breaks :: device where
  "dev_query_breaks = \<lparr>sp2 = (\<lambda>n. None), auth = (\<lambda>n. None), check_power = (\<lambda>n. Inl OtherException),
                       set_power = (\<lambda>n. None)\<rparr>"

section \<open>Properties of the device handle\<close>

lemmas handle_defs = connect_def sp_def sp_check_power_def sp_set_power_def pvt_try_def
  pvt_set_power_state_def set_state_def record_call_def logging_info_def logging_warning_def
  new_calls_def

lemmas handle_splits = option.splits sum.splits if_splits exn.splits prod.splits

subsection \<open>What \<^verbatim>\<open>connect\<close> does\<close>

lemma connect_raises_only_connect_error:
  "connect d h w = (Inl e, h', w') \<Longrightarrow> e = SpeakerConnectError ''Connection error''"
  by (auto simp: connect_def Let_def split: option.splits)

lemma connect_success_stores_session:
  "connect d h w = (Inr u, h', w') \<Longrightarrow> priv_sp h' = Some (length (calls w))"
  by (auto simp: connect_def Let_def split: option.splits)

lemma set_state_extends_trace:
  "set_state d state h w = (r, h', w') \<Longrightarrow> calls w' = calls w @ new_calls w w'"
  by (auto simp: handle_defs Let_def split: handle_splits)

subsection \<open>Construction\<close>

text \<open>
  C10. Constructing a handle makes one connect attempt and always yields the handle, never an
  exception. The library calls of the construction are the constructor \<^verbatim>\<open>sp2(...)\<close> alone when
  it raises, and otherwise the constructor followed by \<^verbatim>\<open>auth()\<close> on the new session. When
  either raises, the handle is still returned and the one record logged is the warning
  \<^verbatim>\<open>Could not connect to <name> speaker: Connection error\<close>.
\<close>

theorem init_never_raises:
  "\<exists>h w'. SpeakerAccess_init d nm hst prt mc dt w = (Inr h, w') \<and>
     name h = nm \<and> host h = hst \<and> port h = prt \<and> mac h = mc \<and> devtype h = dt \<and>
     calls w' = calls w @ new_calls w w' \<and>
     ((\<exists>e. new_calls w w' = [(Sp2 hst prt mc dt, Raised e)] \<and>
           priv_sp h = None \<and>
           logged w' = logged w @
             [(WARNING, ''Could not connect to '' @ nm @ '' speaker: Connection error'')]) \<or>
      (\<exists>e. new_calls w w' =
             [(Sp2 hst prt mc dt, Returned), (Auth (length (calls w)), Raised e)] \<and>
           logged w' = logged w @
             [(WARNING, ''Could not connect to '' @ nm @ '' speaker: Connection error'')]) \<or>
      (new_calls w w' = [(Sp2 hst prt mc dt, Returned), (Auth (length (calls w)), Returned)] \<and>
       priv_sp h = Some (length (calls w)) \<and>
       logged w' = logged w @ [(INFO, ''Connected to '' @ nm @ '' speaker'')]))"
  by (auto simp: SpeakerAccess_init_def handle_defs Let_def split: option.splits)

subsection \<open>Setting the power state\<close>

text \<open>
  C5. When, during \<^verbatim>\<open>set_state(desired)\<close>, the power query returns and reports the desired
  state, the call returns normally and makes no \<^verbatim>\<open>set_power\<close> call on the device, on any
  session and with any outcome.
\<close>

theorem no_redundant_write:
  assumes "set_state d desired h w = (r, h', w')"
    and "(Check_power s, Returned_power desired) \<in> set (new_calls w w')"
  shows "r = Inr () \<and> (Set_power s' b, out) \<notin> set (new_calls w w')"
  using assms by (auto simp: handle_defs Let_def split: handle_splits)

text \<open>
  The theorem at a concrete call: a handle without session, a device that is on, and the
  desired state on. The call connects, queries, and stops there.
\<close>

theorem no_redundant_write_witness:
  "set_state dev_on True handle0 world0 =
     (Inr (), handle0\<lparr>priv_sp := Some 0\<rparr>,
      \<lparr>calls = [(Sp2 ''10.0.0.5'' 80 [52, 234, 52, 1, 2, 3] 10001, Returned), (Auth 0, Returned),
                (Check_power 0, Returned_power True)],
       logged = [(INFO, ''Connected to left speaker'')]\<rparr>) \<and>
   (Set_power 0 True, Returned) \<notin> set (new_calls world0
      \<lparr>calls = [(Sp2 ''10.0.0.5'' 80 [52, 234, 52, 1, 2, 3] 10001, Returned), (Auth 0, Returned),
                (Check_power 0, Returned_power True)],
       logged = [(INFO, ''Connected to left speaker'')]\<rparr>)"
proof -
  have a: "set_state dev_on True handle0 world0 =
     (Inr (), handle0\<lparr>priv_sp := Some 0\<rparr>,
      \<lparr>calls = [(Sp2 ''10.0.0.5'' 80 [52, 234, 52, 1, 2, 3] 10001, Returned), (Auth 0, Returned),
                (Check_power 0, Returned_power True)],
       logged = [(INFO, ''Connected to left speaker'')]\<rparr>)"
    by (simp add: handle_defs Let_def dev_on_def handle0_def world0_def)
  have b: "(Check_power 0, Returned_power True) \<in> set (new_calls world0
      \<lparr>calls = [(Sp2 ''10.0.0.5'' 80 [52, 234, 52, 1, 2, 3] 10001, Returned), (Auth 0, Returned),
                (Check_power 0, Returned_power True)],
       logged = [(INFO, ''Connected to left speaker'')]\<rparr>)"
    by (simp add: new_calls_def world0_def)
  show ?thesis using a no_redundant_write [OF a b, of 0 True Returned] by simp
qed

text \<open>
  C6. When a power query or a power write made by \<^verbatim>\<open>pvt_set_power_state\<close> raises an I/O
  error, the call raises \<^verbatim>\<open>SpeakerConnectError("Communication error")\<close> and leaves the stored
  session unset; the next call through the handle, for any state, then starts by building a
  new session with the constructor \<^verbatim>\<open>sp2(...)\<close>.
\<close>

theorem io_failure_discards_session:
  assumes "pvt_set_power_state d state h w = (r, h', w')"
    and "(Check_power s, Raised IOError) \<in> set (new_calls w w') \<or>
         (Set_power s b, Raised IOError) \<in> set (new_calls w w')"
  shows "r = Inl (SpeakerConnectError ''Communication error'') \<and> priv_sp h' = None \<and>
         (\<exists>out rest. new_calls w' (snd (snd (pvt_set_power_state d state' h' w'))) =
            (Sp2 (host h) (port h) (mac h) (devtype h), out) # rest)"
proof -
  have first: "r = Inl (SpeakerConnectError ''Communication error'') \<and> priv_sp h' = None \<and>
      host h' = host h \<and> port h' = port h \<and> mac h' = mac h \<and> devtype h' = devtype h"
    using assms by (auto simp: handle_defs Let_def split: handle_splits)
  have "\<exists>out rest. new_calls w' (snd (snd (pvt_set_power_state d state' h' w'))) =
            (Sp2 (host h') (port h') (mac h') (devtype h'), out) # rest"
    using first by (auto simp: handle_defs Let_def split: handle_splits)
  then show ?thesis using first by simp
qed

text \<open>
  The theorem at a concrete call: a handle without session connects, and the power query on
  the new session raises an I/O error.
\<close>

theorem io_failure_discards_session_witness:
  "pvt_set_power_state dev_io_fails True handle0 world0 =
     (Inl (SpeakerConnectError ''Communication error''), handle0,
      \<lparr>calls = [(Sp2 ''10.0.0.5'' 80 [52, 234, 52, 1, 2, 3] 10001, Returned), (Auth 0, Returned),
                (Check_power 0, Raised IOError)],
       logged = [(INFO, ''Connected to left speaker'')]\<rparr>) \<and>
   priv_sp handle0 = None \<and>
   (\<exists>out rest.
      new_calls
        \<lparr>calls = [(Sp2 ''10.0.0.5'' 80 [52, 234, 52, 1, 2, 3] 10001, Returned), (Auth 0, Returned),
                  (Check_power 0, Raised IOError)],
         logged = [(INFO, ''Connected to left speaker'')]\<rparr>
        (snd (snd (pvt_set_power_state dev_io_fails False handle0
           \<lparr>calls = [(Sp2 ''10.0.0.5'' 80 [52, 234, 52, 1, 2, 3] 10001, Returned),
                     (Auth 0, Returned), (Check_power 0, Raised IOError)],
            logged = [(INFO, ''Connected to left speaker'')]\<rparr>))) =
      (Sp2 ''10.0.0.5'' 80 [52, 234, 52, 1, 2, 3] 10001, out) # rest)"
proof -
  let ?w = "\<lparr>calls = [(Sp2 ''10.0.0.5'' 80 [52, 234, 52, 1, 2, 3] 10001, Returned),
                      (Auth 0, Returned), (Check_power 0, Raised IOError)],
             logged = [(INFO, ''Connected to left speaker'')]\<rparr>"
  have a: "pvt_set_power_state dev_io_fails True handle0 world0 =
      (Inl (SpeakerConnectError ''Communication error''), handle0, ?w)"
    by (simp add: handle_defs Let_def dev_io_fails_def handle0_def world0_def)
  have b: "(Check_power 0, Raised IOError) \<in> set (new_calls world0 ?w) \<or>
      (Set_power 0 True, Raised IOError) \<in> set (new_calls world0 ?w)"
    by (simp add: new_calls_def world0_def)
  have c: "host handle0 = ''10.0.0.5'' \<and> port handle0 = 80 \<and>
      mac handle0 = [52, 234, 52, 1, 2, 3] \<and> devtype handle0 = 10001"
    by (simp add: handle0_def)
  show ?thesis using a c io_failure_discards_session [OF a b, of False] by simp
qed

subsection \<open>Which exceptions escape\<close>

lemma sp_returns_session:
  "sp d h w = (Inr x, h', w') \<Longrightarrow> \<exists>s. x = Some s"
  by (auto simp: sp_def connect_def Let_def split: option.splits if_splits)

lemma sp_raises_only_connect_error:
  "sp d h w = (Inl e, h', w') \<Longrightarrow> e = SpeakerConnectError ''Connection error''"
  by (auto simp: sp_def split: if_splits sum.splits prod.splits
      dest: connect_raises_only_connect_error)

lemma sp_check_power_raises:
  "sp_check_power d (Some s) w = (Inl e, w') \<Longrightarrow> \<exists>n. check_power d n = Inl e"
  by (auto simp: sp_check_power_def split: sum.splits)

lemma sp_set_power_raises:
  "sp_set_power d (Some s) state w = (Inl e, w') \<Longrightarrow> \<exists>n. set_power d n = Some e"
  by (auto simp: sp_set_power_def split: option.splits)

lemma pvt_try_raises:
  assumes "pvt_try d state h w = (Inl e, h', w')"
  shows "e = SpeakerConnectError ''Connection error'' \<or>
         (\<exists>n. check_power d n = Inl e) \<or> (\<exists>n. set_power d n = Some e)"
proof -
  obtain r1 h1 w1 where s1: "sp d h w = (r1, h1, w1)" by (cases "sp d h w")
  show ?thesis
  proof (cases r1)
    case (Inl e1)
    then show ?thesis
      using assms s1 sp_raises_only_connect_error [of d h w e1 h1 w1]
      by (simp add: pvt_try_def)
  next
    case (Inr x)
    then obtain s where x: "x = Some s" using s1 sp_returns_session by blast
    obtain r2 w2 where s2: "sp_check_power d (Some s) w1 = (r2, w2)"
      by (cases "sp_check_power d (Some s) w1")
    show ?thesis
    proof (cases r2)
      case (Inl e2)
      then show ?thesis
        using assms s1 Inr x s2 sp_check_power_raises [of d s w1 e2 w2]
        by (simp add: pvt_try_def)
    next
      case p: (Inr p)
      show ?thesis
      proof (cases "p \<noteq> state")
        case False
        then show ?thesis using assms s1 Inr x s2 p by (simp add: pvt_try_def)
      next
        case True
        let ?w3 = "logging_info
            (''Turning '' @ power_state_as_text state @ '' '' @ name h1 @ '' speaker'') w2"
        obtain r4 h4 w4 where s4: "sp d h1 ?w3 = (r4, h4, w4)" by (cases "sp d h1 ?w3")
        show ?thesis
        proof (cases r4)
          case (Inl e4)
          then show ?thesis
            using assms s1 Inr x s2 p True s4 sp_raises_only_connect_error [of d h1 ?w3 e4 h4 w4]
            by (simp add: pvt_try_def Let_def)
        next
          case y: (Inr y)
          then obtain s' where y': "y = Some s'" using s4 sp_returns_session by blast
          obtain r5 w5 where s5: "sp_set_power d (Some s') state w4 = (r5, w5)"
            by (cases "sp_set_power d (Some s') state w4")
          show ?thesis
          proof (cases r5)
            case (Inl e5)
            then show ?thesis
              using assms s1 Inr x s2 p True s4 y y' s5 sp_set_power_raises [of d s' state w4 e5 w5]
              by (simp add: pvt_try_def Let_def)
          next
            case (Inr u)
            then show ?thesis
              using assms s1 \<open>r1 = Inr x\<close> x s2 p True s4 y y' s5 by (simp add: pvt_try_def Let_def)
          qed
        qed
      qed
    qed
  qed
qed

lemma set_state_raises_only:
  assumes "set_state d desired h w = (Inl e, h', w')"
  shows "e = OtherException \<and> ((\<exists>n. check_power d n = Inl e) \<or> (\<exists>n. set_power d n = Some e))"
proof -
  obtain r1 h1 w1 where t: "pvt_try d desired h w = (r1, h1, w1)"
    by (cases "pvt_try d desired h w")
  show ?thesis
  proof (cases r1)
    case (Inr u)
    then show ?thesis using assms t by (simp add: set_state_def pvt_set_power_state_def)
  next
    case (Inl e1)
    then have "e1 = SpeakerConnectError ''Connection error'' \<or>
         (\<exists>n. check_power d n = Inl e1) \<or> (\<exists>n. set_power d n = Some e1)"
      using t pvt_try_raises by blast
    then show ?thesis
      using assms t Inl by (cases e1) (auto simp: set_state_def pvt_set_power_state_def)
  qed
qed

subsection \<open>What \<^verbatim>\<open>set_state\<close> logs\<close>

lemma connect_failure_logged:
  assumes "set_state d desired h w = (r, h', w')"
    and "list_ex connect_failed (new_calls w w')"
  shows "r = Inr () \<and> new_warnings w w' =
      [(WARNING, ''Could not turn '' @ power_state_as_text desired @ '' '' @ name h @
                 '' speaker: Connection error'')]"
  using assms
  by (auto simp: handle_defs new_warnings_def Let_def split: handle_splits)

lemma io_failure_logged:
  assumes "set_state d desired h w = (r, h', w')"
    and "list_ex io_failed (new_calls w w')"
  shows "r = Inr () \<and> new_warnings w w' =
      [(WARNING, ''Could not turn '' @ power_state_as_text desired @ '' '' @ name h @
                 '' speaker: Communication error'')]"
  using assms
  by (auto simp: handle_defs new_warnings_def Let_def split: handle_splits)

lemma quiet_call_logs_no_warning:
  assumes "set_state d desired h w = (r, h', w')"
    and "\<not> list_ex raised (new_calls w w')"
  shows "r = Inr () \<and> new_warnings w w' = []"
  using assms
  by (auto simp: handle_defs new_warnings_def Let_def split: handle_splits)

subsection \<open>The threads of the group\<close>

lemma set_state_returns:
  assumes "\<forall>n. check_power d n \<noteq> Inl OtherException"
    and "\<forall>n. set_power d n \<noteq> Some OtherException"
  shows "fst (set_state d desired h w) = Inr ()"
proof (cases "set_state d desired h w")
  case (fields r h' w')
  show ?thesis
  proof (cases r)
    case (Inl e)
    then show ?thesis using fields set_state_raises_only [of d desired h w e h' w'] assms by auto
  next
    case (Inr u)
    then show ?thesis using fields by simp
  qed
qed

lemma set_state_keeps_name:
  "set_state d state h w = (r, h', w') \<Longrightarrow> name h' = name h"
  by (auto simp: handle_defs Let_def split: handle_splits)

lemma thread_start_returns:
  "Thread_start_set_state d state h w = (r, x, h', w') \<Longrightarrow>
   r = Inr () \<and> name h' = name h \<and> (x = None) = (fst (set_state d state h w) = Inr ())"
  by (auto simp: Thread_start_set_state_def split: prod.splits sum.splits
      dest: set_state_keeps_name)

lemma group_returns:
  "SpeakerRemote_set_power_state state speakers w = (r, xs, speakers', w') \<Longrightarrow>
   r = Inr () \<and> length xs = length speakers \<and> map fst speakers' = map fst speakers \<and>
   map (\<lambda>s. name (snd s)) speakers' = map (\<lambda>s. name (snd s)) speakers"
proof (induction speakers arbitrary: w r xs speakers' w')
  case Nil
  then show ?case by simp
next
  case (Cons a speakers)
  obtain d h where a: "a = (d, h)" by (cases a)
  obtain r1 x h1 w1 where t: "Thread_start_set_state d state h w = (r1, x, h1, w1)"
    by (cases "Thread_start_set_state d state h w")
  have r1: "r1 = Inr ()" "name h1 = name h" using thread_start_returns [OF t] by simp_all
  obtain r2 xs2 sp2' w2 where g: "SpeakerRemote_set_power_state state speakers w1 = (r2, xs2, sp2', w2)"
    by (cases "SpeakerRemote_set_power_state state speakers w1")
  have ih: "r2 = Inr () \<and> length xs2 = length speakers \<and> map fst sp2' = map fst speakers \<and>
      map (\<lambda>s. name (snd s)) sp2' = map (\<lambda>s. name (snd s)) speakers"
    using Cons.IH [OF g] .
  show ?case using Cons.prems a t r1 g ih by auto
qed

lemma group_isolates:
  "SpeakerRemote_set_power_state state speakers w = (r, xs, speakers', w') \<Longrightarrow>
   i < length speakers \<Longrightarrow>
   \<forall>n. check_power (fst (speakers ! i)) n \<noteq> Inl OtherException \<Longrightarrow>
   \<forall>n. set_power (fst (speakers ! i)) n \<noteq> Some OtherException \<Longrightarrow>
   xs ! i = None"
proof (induction speakers arbitrary: w r xs speakers' w' i)
  case Nil
  then show ?case by simp
next
  case (Cons a speakers)
  obtain d h where a: "a = (d, h)" by (cases a)
  obtain r1 x h1 w1 where t: "Thread_start_set_state d state h w = (r1, x, h1, w1)"
    by (cases "Thread_start_set_state d state h w")
  have r1: "r1 = Inr ()" "(x = None) = (fst (set_state d state h w) = Inr ())"
    using thread_start_returns [OF t] by simp_all
  obtain r2 xs2 sp2' w2 where g: "SpeakerRemote_set_power_state state speakers w1 = (r2, xs2, sp2', w2)"
    by (cases "SpeakerRemote_set_power_state state speakers w1")
  have xs: "xs = x # xs2" using Cons.prems(1) a t r1 g by auto
  show ?case
  proof (cases i)
    case 0
    then have "fst (set_state d state h w) = Inr ()"
      using Cons.prems(3,4) a by (intro set_state_returns) simp_all
    then show ?thesis using xs 0 r1 by simp
  next
    case (Suc j)
    then have "xs2 ! j = None"
      using Cons.prems(2,3,4) by (intro Cons.IH [OF g]) simp_all
    then show ?thesis using xs Suc by simp
  qed
qed

lemma run_pass_remote_returns:
  "fst (run_pass_remote now t speakers w) = Inr ()"
proof -
  have on: "fst (SpeakerRemote_switch_on speakers w) = Inr ()"
    using group_returns [of True speakers w] 
    by (cases "SpeakerRemote_set_power_state True speakers w") (simp add: SpeakerRemote_switch_on_def)
  have off: "fst (SpeakerRemote_switch_off speakers w) = Inr ()"
    using group_returns [of False speakers w] 
    by (cases "SpeakerRemote_set_power_state False speakers w") (simp add: SpeakerRemote_switch_off_def)
  show ?thesis using on off
    by (auto simp: run_pass_remote_def split: prod.splits option.splits remote_call.splits)
qed


text \<open>
  C4, as the code has it. For every device, handle and desired state:
  \<^item> when a call of \<^verbatim>\<open>connect\<close> raises (the constructor or the authentication, with any
    exception), or the power query or power write raises an \<^verbatim>\<open>IOError\<close>, \<^verbatim>\<open>set_state\<close>
    returns normally and logs exactly one warning, which names the state and the device:
    \<^verbatim>\<open>Could not turn <on/off> <name> speaker: Connection error\<close>, respectively
    \<^verbatim>\<open>Communication error\<close>; when no library call raises it returns normally and logs no
    warning;
  \<^item> \<^verbatim>\<open>set_state\<close> returns normally whenever the power query and the power write of the
    device raise no exception other than an \<^verbatim>\<open>IOError\<close> or a \<^verbatim>\<open>SpeakerConnectError\<close>
    (\<^verbatim>\<open>pvt_set_power_state\<close> catches \<^verbatim>\<open>IOError\<close> only);
  \<^item> whatever the devices do, also when \<^verbatim>\<open>set_state\<close> of one of them raises,
    \<^verbatim>\<open>set_power_state\<close> of the group returns normally to its caller after starting one
    thread for every speaker; an exception ends the thread of its own device only, and the
    thread of every device that keeps to the condition above ends normally;
    \<^verbatim>\<open>switch_on\<close>, \<^verbatim>\<open>switch_off\<close> and the pass of the supervisory loop that calls them return
    normally.
\<close>

theorem device_errors_isolated:
  "(case set_state d desired h w of
      (r, h', w') \<Rightarrow>
        (list_ex connect_failed (new_calls w w') \<longrightarrow>
           r = Inr () \<and>
           new_warnings w w' =
             [(WARNING, ''Could not turn '' @ power_state_as_text desired @ '' '' @ name h @
                        '' speaker: Connection error'')]) \<and>
        (list_ex io_failed (new_calls w w') \<longrightarrow>
           r = Inr () \<and>
           new_warnings w w' =
             [(WARNING, ''Could not turn '' @ power_state_as_text desired @ '' '' @ name h @
                        '' speaker: Communication error'')]) \<and>
        (\<not> list_ex raised (new_calls w w') \<longrightarrow> r = Inr () \<and> new_warnings w w' = []) \<and>
        ((\<forall>n. check_power d n \<noteq> Inl OtherException) \<and>
         (\<forall>n. set_power d n \<noteq> Some OtherException) \<longrightarrow> r = Inr ())) \<and>
   (case SpeakerRemote_set_power_state state speakers w of
      (r, xs, speakers', w') \<Rightarrow>
        r = Inr () \<and> length xs = length speakers \<and>
        map (\<lambda>s. name (snd s)) speakers' = map (\<lambda>s. name (snd s)) speakers \<and>
        (\<forall>i < length speakers.
           (\<forall>n. check_power (fst (speakers ! i)) n \<noteq> Inl OtherException) \<and>
           (\<forall>n. set_power (fst (speakers ! i)) n \<noteq> Some OtherException) \<longrightarrow>
           xs ! i = None)) \<and>
   fst (SpeakerRemote_switch_on speakers w) = Inr () \<and>
   fst (SpeakerRemote_switch_off speakers w) = Inr () \<and>
   fst (run_pass_remote now t speakers w) = Inr ()"
proof -
  obtain r h' w' where s: "set_state d desired h w = (r, h', w')"
    by (cases "set_state d desired h w")
  have handle: "(list_ex connect_failed (new_calls w w') \<longrightarrow>
           r = Inr () \<and>
           new_warnings w w' =
             [(WARNING, ''Could not turn '' @ power_state_as_text desired @ '' '' @ name h @
                        '' speaker: Connection error'')]) \<and>
        (list_ex io_failed (new_calls w w') \<longrightarrow>
           r = Inr () \<and>
           new_warnings w w' =
             [(WARNING, ''Could not turn '' @ power_state_as_text desired @ '' '' @ name h @
                        '' speaker: Communication error'')]) \<and>
        (\<not> list_ex raised (new_calls w w') \<longrightarrow> r = Inr () \<and> new_warnings w w' = []) \<and>
        ((\<forall>n. check_power d n \<noteq> Inl OtherException) \<and>
         (\<forall>n. set_power d n \<noteq> Some OtherException) \<longrightarrow> r = Inr ())"
    using connect_failure_logged [OF s] io_failure_logged [OF s] quiet_call_logs_no_warning [OF s]
      set_state_returns [of d desired h w] s
    by simp
  obtain g xs speakers' w2 where
    p: "SpeakerRemote_set_power_state state speakers w = (g, xs, speakers', w2)"
    by (cases "SpeakerRemote_set_power_state state speakers w")
  have group: "g = Inr () \<and> length xs = length speakers \<and>
        map (\<lambda>s. name (snd s)) speakers' = map (\<lambda>s. name (snd s)) speakers \<and>
        (\<forall>i < length speakers.
           (\<forall>n. check_power (fst (speakers ! i)) n \<noteq> Inl OtherException) \<and>
           (\<forall>n. set_power (fst (speakers ! i)) n \<noteq> Some OtherException) \<longrightarrow>
           xs ! i = None)"
    using group_returns [OF p] group_isolates [OF p] by blast
  have on: "fst (SpeakerRemote_switch_on speakers w) = Inr ()"
    using group_returns [of True speakers w]
    by (cases "SpeakerRemote_set_power_state True speakers w")
      (simp add: SpeakerRemote_switch_on_def)
  have off: "fst (SpeakerRemote_switch_off speakers w) = Inr ()"
    using group_returns [of False speakers w]
    by (cases "SpeakerRemote_set_power_state False speakers w")
      (simp add: SpeakerRemote_switch_off_def)
  show ?thesis
    using handle group on off run_pass_remote_returns [of now t speakers w] by (simp add: s p)
qed

text \<open>
  The theorem at concrete inputs: a device whose power query fails with an I/O error, a
  device that cannot be reached, a device on which nothing raises, and a group of two
  speakers of which the first has a power query that raises another exception; the thread of
  the second speaker ends normally and the loop's pass returns.
\<close>

theorem device_errors_isolated_witness:
  "set_state dev_io_fails False handle0 world0 =
     (Inr (), handle0,
      \<lparr>calls = [(Sp2 ''10.0.0.5'' 80 [52, 234, 52, 1, 2, 3] 10001, Returned), (Auth 0, Returned),
                (Check_power 0, Raised IOError)],
       logged = [(INFO, ''Connected to left speaker''),
                 (WARNING, ''Could not turn off left speaker: Communication error'')]\<rparr>) \<and>
   new_warnings world0 (snd (snd (set_state dev_io_fails False handle0 world0))) =
     [(WARNING, ''Could not turn off left speaker: Communication error'')] \<and>
   fst (set_state dev_unreachable True handle1 world0) = Inr () \<and>
   new_warnings world0 (snd (snd (set_state dev_unreachable True handle1 world0))) =
     [(WARNING, ''Could not turn on right speaker: Connection error'')] \<and>
   fst (set_state dev_on True handle0 world0) = Inr () \<and>
   new_warnings world0 (snd (snd (set_state dev_on True handle0 world0))) = [] \<and>
   fst (SpeakerRemote_set_power_state True
          [(dev_query_breaks, handle0), (dev_io_fails, handle1)] world0) = Inr () \<and>
   fst (snd (SpeakerRemote_set_power_state True
          [(dev_query_breaks, handle0), (dev_io_fails, handle1)] world0)) ! 1 = None \<and>
   fst (run_pass_remote 7000000
          \<lparr>priv_state = PLAYING, priv_state_changed = Some 6000000, priv_event = True\<rparr>
          [(dev_query_breaks, handle0), (dev_io_fails, handle1)] world0) = Inr ()"
proof -
  let ?w = "\<lparr>calls = [(Sp2 ''10.0.0.5'' 80 [52, 234, 52, 1, 2, 3] 10001, Returned),
                      (Auth 0, Returned), (Check_power 0, Raised IOError)],
             logged = [(INFO, ''Connected to left speaker''),
                       (WARNING, ''Could not turn off left speaker: Communication error'')]\<rparr>"
  let ?speakers = "[(dev_query_breaks, handle0), (dev_io_fails, handle1)]"
  let ?t = "\<lparr>priv_state = PLAYING, priv_state_changed = Some 6000000, priv_event = True\<rparr>"
  have names: "name handle0 = ''left''" "name handle1 = ''right''"
    "power_state_as_text False = ''off''" "power_state_as_text True = ''on''"
    by (simp_all add: handle0_def handle1_def power_state_as_text_def)
  have a: "set_state dev_io_fails False handle0 world0 = (Inr (), handle0, ?w)"
    by (simp add: handle_defs Let_def dev_io_fails_def handle0_def world0_def
        power_state_as_text_def)
  have b: "list_ex io_failed (new_calls world0 ?w)"
    by (simp add: new_calls_def world0_def)
  have e: "(1::nat) < length ?speakers" by simp
  have f: "(\<forall>n. check_power (fst (?speakers ! 1)) n \<noteq> Inl OtherException) \<and>
      (\<forall>n. set_power (fst (?speakers ! 1)) n \<noteq> Some OtherException)"
    by (simp add: dev_io_fails_def)
  note th = device_errors_isolated [where d = dev_io_fails and desired = False and h = handle0
      and w = world0 and state = True and speakers = ?speakers and now = 7000000 and t = ?t]
  have w: "new_warnings world0 (snd (snd (set_state dev_io_fails False handle0 world0))) =
      [(WARNING, ''Could not turn off left speaker: Communication error'')]"
    using th a b names by simp
  have g: "fst (SpeakerRemote_set_power_state True ?speakers world0) = Inr ()"
    using th by (simp add: case_prod_beta)
  have i: "fst (snd (SpeakerRemote_set_power_state True ?speakers world0)) ! 1 = None"
    using th e f by (simp add: case_prod_beta)
  have p: "fst (run_pass_remote 7000000 ?t ?speakers world0) = Inr ()"
    using th by simp
  let ?u = "\<lparr>calls = [(Sp2 ''10.0.0.6'' 80 [52, 234, 52, 4, 5, 6] 10001, Raised IOError)],
             logged = [(WARNING, ''Could not turn on right speaker: Connection error'')]\<rparr>"
  have a2: "set_state dev_unreachable True handle1 world0 = (Inr (), handle1, ?u)"
    by (simp add: handle_defs Let_def dev_unreachable_def handle1_def world0_def
        power_state_as_text_def)
  have b2: "list_ex connect_failed (new_calls world0 ?u)"
    by (simp add: new_calls_def world0_def)
  have h2: "(\<forall>n. check_power dev_unreachable n \<noteq> Inl OtherException) \<and>
      (\<forall>n. set_power dev_unreachable n \<noteq> Some OtherException)"
    by (simp add: dev_unreachable_def)
  note th2 = device_errors_isolated [where d = dev_unreachable and desired = True
      and h = handle1 and w = world0 and state = True and speakers = ?speakers and now = 7000000
      and t = ?t]
  have r2: "fst (set_state dev_unreachable True handle1 world0) = Inr ()"
    using th2 h2 by (simp add: case_prod_beta)
  have w2: "new_warnings world0 (snd (snd (set_state dev_unreachable True handle1 world0))) =
      [(WARNING, ''Could not turn on right speaker: Connection error'')]"
    using th2 a2 b2 names by simp
  let ?v = "\<lparr>calls = [(Sp2 ''10.0.0.5'' 80 [52, 234, 52, 1, 2, 3] 10001, Returned),
                      (Auth 0, Returned), (Check_power 0, Returned_power True)],
             logged = [(INFO, ''Connected to left speaker'')]\<rparr>"
  have a3: "set_state dev_on True handle0 world0 = (Inr (), handle0\<lparr>priv_sp := Some 0\<rparr>, ?v)"
    by (simp add: handle_defs Let_def dev_on_def handle0_def world0_def)
  have b3: "\<not> list_ex raised (new_calls world0 ?v)"
    by (simp add: new_calls_def world0_def)
  note th3 = device_errors_isolated [where d = dev_on and desired = True
      and h = handle0 and w = world0 and state = True and speakers = ?speakers and now = 7000000
      and t = ?t]
  have r3: "fst (set_state dev_on True handle0 world0) = Inr () \<and>
      new_warnings world0 (snd (snd (set_state dev_on True handle0 world0))) = []"
    using th3 a3 b3 by simp
  show ?thesis using a w r2 w2 r3 g i p by simp
qed

text \<open>
  C4 as stated fails: the power query of the device raises an exception that is not an
  \<^verbatim>\<open>IOError\<close>, and \<^verbatim>\<open>set_state\<close> raises it to its caller.
\<close>

theorem set_state_raises_counterexample:
  "fst (set_state dev_query_breaks True handle0 world0) = Inl OtherException"
  by (simp add: handle_defs Let_def dev_query_breaks_def handle0_def world0_def)

subsection \<open>A failed authentication\<close>

text \<open>
  C2 at a failing input. The device accepts the constructor and rejects the authentication.
  The first \<^verbatim>\<open>connect\<close>, made by the construction of the handle, raises the connect error
  (logged as a warning), but the handle keeps the session the constructor returned. The
  \<^verbatim>\<open>set_state(True)\<close> that follows makes no connect attempt: it queries and writes on that
  session.
\<close>

theorem failed_auth_keeps_session:
  "connect dev_auth_rejects handle0 world0 =
     (Inl (SpeakerConnectError ''Connection error''), handle0\<lparr>priv_sp := Some 0\<rparr>,
      \<lparr>calls = [(Sp2 ''10.0.0.5'' 80 [52, 234, 52, 1, 2, 3] 10001, Returned),
                (Auth 0, Raised OtherException)],
       logged = []\<rparr>) \<and>
   SpeakerAccess_init dev_auth_rejects ''left'' ''10.0.0.5'' 80 [52, 234, 52, 1, 2, 3] 10001 world0 =
     (Inr (handle0\<lparr>priv_sp := Some 0\<rparr>),
      \<lparr>calls = [(Sp2 ''10.0.0.5'' 80 [52, 234, 52, 1, 2, 3] 10001, Returned),
                (Auth 0, Raised OtherException)],
       logged = [(WARNING, ''Could not connect to left speaker: Connection error'')]\<rparr>) \<and>
   set_state dev_auth_rejects True (handle0\<lparr>priv_sp := Some 0\<rparr>)
      \<lparr>calls = [(Sp2 ''10.0.0.5'' 80 [52, 234, 52, 1, 2, 3] 10001, Returned),
                (Auth 0, Raised OtherException)],
       logged = [(WARNING, ''Could not connect to left speaker: Connection error'')]\<rparr> =
     (Inr (), handle0\<lparr>priv_sp := Some 0\<rparr>,
      \<lparr>calls = [(Sp2 ''10.0.0.5'' 80 [52, 234, 52, 1, 2, 3] 10001, Returned),
                (Auth 0, Raised OtherException),
                (Check_power 0, Returned_power False), (Set_power 0 True, Returned)],
       logged = [(WARNING, ''Could not connect to left speaker: Connection error''),
                 (INFO, ''Turning on left speaker'')]\<rparr>)"
  by (simp add: SpeakerAccess_init_def handle_defs Let_def dev_auth_rejects_def handle0_def
      world0_def power_state_as_text_def)

section \<open>Properties of the supervisory loop\<close>

subsection \<open>Elapsed whole seconds\<close>

lemma whole_seconds_bound:
  fixes d :: int
  assumes "0 \<le> d" "d < 86400 * 1000000"
  shows "(60 < (d div 1000000) mod 86400) = (61 * 1000000 \<le> d)"
proof -
  define q where "q = d div 1000000"
  define r where "r = d mod 1000000"
  have d: "d = q * 1000000 + r" unfolding q_def r_def by simp
  have r: "0 \<le> r" "r < 1000000" unfolding r_def by simp_all
  have a: "0 \<le> q" using assms(1) d r by linarith
  have b: "q < 86400" using assms(2) d r by linarith
  have c: "q mod 86400 = q" using a b by simp
  have e: "(60 < q) = (61 * 1000000 \<le> d)" using d r by linarith
  show ?thesis using c e unfolding q_def by simp
qed

lemma elapsed_whole_seconds:
  assumes "T \<le> now" "now < T + 86400 * 1000000"
  shows "(TIMEOUT < timedelta_seconds (now - T)) = (T + 61 * 1000000 \<le> now)"
proof -
  have "(60 < ((now - T) div 1000000) mod 86400) = (61 * 1000000 \<le> now - T)"
    using assms by (intro whole_seconds_bound) simp_all
  also have "\<dots> = (T + 61 * 1000000 \<le> now)" by linarith
  finally show ?thesis by (simp add: timedelta_seconds_def TIMEOUT_def)
qed

subsection \<open>A pass of the loop\<close>

lemma run_pass_keeps:
  "priv_state (fst (run_pass now t)) = priv_state t \<and>
   priv_state_changed (fst (run_pass now t)) = priv_state_changed t"
  by (simp add: run_pass_def Let_def)

lemma run_pass_stopped:
  "priv_state t = STOPPED \<Longrightarrow> priv_state_changed t = Some T \<Longrightarrow>
   snd (run_pass now t) = (if TIMEOUT < timedelta_seconds (now - T) then Some switch_off else None)"
  by (simp add: run_pass_def Let_def state_changed_seconds_ago_def STOPPED_def PLAYING_def
      INACTIVE_def)

lemma run_stopped:
  "priv_state t = STOPPED \<Longrightarrow> priv_state_changed t = Some T \<Longrightarrow>
   run polls t =
     map (\<lambda>now. if TIMEOUT < timedelta_seconds (now - T) then Some switch_off else None) polls"
proof (induction polls arbitrary: t)
  case Nil
  then show ?case by simp
next
  case (Cons now polls)
  have rest: "run polls (fst (run_pass now t)) =
      map (\<lambda>now. if TIMEOUT < timedelta_seconds (now - T) then Some switch_off else None) polls"
    using Cons.prems by (intro Cons.IH) (simp_all add: run_pass_keeps)
  show ?case
    using run_pass_stopped [OF Cons.prems, of now] rest by (simp add: case_prod_beta)
qed

text \<open>
  C1, as the code has it. The state machine enters Stopped at clock reading \<open>T\<close> (the signal
  changes the state) and no further signal arrives; the loop then makes its passes at the clock
  readings \<open>polls\<close>, each at or after \<open>T\<close> and less than one day after it. A pass calls
  \<^verbatim>\<open>switch_off\<close> exactly when it is evaluated 61 seconds or more after \<open>T\<close>: the code compares
  the whole seconds elapsed with \<^verbatim>\<open>> TIMEOUT\<close>. So no pass before \<open>T\<close> + 61 s calls it, and
  the first pass at or after \<open>T\<close> + 61 s does.
\<close>

theorem debounce_whole_seconds:
  assumes "priv_state t \<noteq> STOPPED"
    and "\<forall>now \<in> set polls. T \<le> now \<and> now < T + 86400 * 1000000"
  shows "run polls (fst (signal_stopped T t w)) =
         map (\<lambda>now. if now < T + 61 * 1000000 then None else Some switch_off) polls"
proof -
  let ?t = "fst (signal_stopped T t w)"
  have s: "priv_state ?t = STOPPED" "priv_state_changed ?t = Some T"
    using assms(1) by (simp_all add: signal_stopped_def SpeakerThread_set_state_def)
  have "run polls ?t =
      map (\<lambda>now. if TIMEOUT < timedelta_seconds (now - T) then Some switch_off else None) polls"
    using s by (rule run_stopped)
  also have "\<dots> = map (\<lambda>now. if now < T + 61 * 1000000 then None else Some switch_off) polls"
    using assms(2) by (intro map_cong refl) (auto simp: elapsed_whole_seconds)
  finally show ?thesis .
qed

text \<open>
  The theorem at a concrete run: Stopped is signalled at reading 0 on a fresh thread, and the
  loop passes at 10 s, 59.999999 s, 60 s, 60.999999 s, 61 s and 70 s.
\<close>

theorem debounce_whole_seconds_witness:
  "run [10000000, 59999999, 60000000, 60999999, 61000000, 70000000]
       (fst (signal_stopped 0 SpeakerThread_init world0)) =
     [None, None, None, None, Some switch_off, Some switch_off]"
proof -
  have a: "priv_state SpeakerThread_init \<noteq> STOPPED"
    by (simp add: SpeakerThread_init_def STOPPED_def)
  have b: "\<forall>now \<in> set [10000000, 59999999, 60000000, 60999999, 61000000, 70000000].
      (0::int) \<le> now \<and> now < 0 + 86400 * 1000000"
    by simp
  show ?thesis using debounce_whole_seconds [OF a b, of world0] by simp
qed

text \<open>
  C1 as stated fails: Stopped is signalled at reading 0, and the first pass at or after
  \<open>T\<close> + 60 s is evaluated exactly 60 s after it. The pass calls nothing.
\<close>

theorem debounce_at_60s_counterexample:
  "run [60000000] (fst (signal_stopped 0 SpeakerThread_init world0)) = [None]"
  by (simp add: signal_stopped_def SpeakerThread_set_state_def SpeakerThread_init_def run_pass_def
      state_changed_seconds_ago_def timedelta_seconds_def TIMEOUT_def STOPPED_def PLAYING_def
      INACTIVE_def)

subsection \<open>Signals\<close>

lemma set_state_same:
  "priv_state t = s \<Longrightarrow> SpeakerThread_set_state s now t w = (t, w)"
  by (simp add: SpeakerThread_set_state_def)

lemma set_state_reaches:
  "priv_state (fst (SpeakerThread_set_state s now t w)) = s"
  by (simp add: SpeakerThread_set_state_def)

lemma signal_repeatedly_same:
  "priv_state t = s \<Longrightarrow> signal_repeatedly s nows t w = (t, w)"
  by (induction nows) (simp_all add: set_state_same)

text \<open>
  C3. However often \<^verbatim>\<open>set_state\<close> is called with the same state \<open>s\<close>, at whatever clock
  readings, the result is that of the first call alone: the later calls change neither the
  state, nor the change time, nor the event, nor the log. The first call, when \<open>s\<close> differs
  from the current state, stores \<open>s\<close>, stamps its own clock reading and sets the event; when
  \<open>s\<close> is the current state already, it changes nothing either.
\<close>

theorem signal_idempotent:
  "signal_repeatedly s (now # nows) t w = SpeakerThread_set_state s now t w \<and>
   (priv_state t \<noteq> s \<longrightarrow>
      fst (SpeakerThread_set_state s now t w) =
        t\<lparr>priv_state := s, priv_state_changed := Some now, priv_event := True\<rparr>) \<and>
   (priv_state t = s \<longrightarrow> SpeakerThread_set_state s now t w = (t, w))"
proof -
  obtain t' w' where r: "SpeakerThread_set_state s now t w = (t', w')"
    by (cases "SpeakerThread_set_state s now t w")
  have "priv_state t' = s" using set_state_reaches [of s now t w] r by simp
  then have "signal_repeatedly s nows t' w' = (t', w')" by (rule signal_repeatedly_same)
  then have first: "signal_repeatedly s (now # nows) t w = SpeakerThread_set_state s now t w"
    using r by simp
  show ?thesis using first by (simp add: SpeakerThread_set_state_def)
qed

text \<open>
  The theorem at concrete inputs: Stopped signalled three times on a fresh thread, at 5 s, 20 s
  and 30 s, leaves the change time at 5 s and one log record; signalled on a thread that is
  in Stopped already, it changes nothing.
\<close>

theorem signal_idempotent_witness:
  "signal_repeatedly STOPPED [5000000, 20000000, 30000000] SpeakerThread_init world0 =
     (\<lparr>priv_state = STOPPED, priv_state_changed = Some 5000000, priv_event = True\<rparr>,
      \<lparr>calls = [], logged = [(INFO, ''Chromecast state changed to STOPPED'')]\<rparr>) \<and>
   SpeakerThread_set_state STOPPED 20000000
     \<lparr>priv_state = STOPPED, priv_state_changed = Some 5000000, priv_event = False\<rparr> world0 =
     (\<lparr>priv_state = STOPPED, priv_state_changed = Some 5000000, priv_event = False\<rparr>, world0)"
proof -
  have a: "priv_state SpeakerThread_init \<noteq> STOPPED"
    by (simp add: SpeakerThread_init_def STOPPED_def)
  have b: "priv_state \<lparr>priv_state = STOPPED, priv_state_changed = Some 5000000, priv_event = False\<rparr>
      = STOPPED"
    by simp
  have c: "snd (SpeakerThread_set_state STOPPED 5000000 SpeakerThread_init world0) =
      \<lparr>calls = [], logged = [(INFO, ''Chromecast state changed to STOPPED'')]\<rparr>"
    by (simp add: SpeakerThread_set_state_def SpeakerThread_init_def STOPPED_def PLAYING_def
        logging_info_def world0_def)
  have d: "signal_repeatedly STOPPED [5000000, 20000000, 30000000] SpeakerThread_init world0 =
      SpeakerThread_set_state STOPPED 5000000 SpeakerThread_init world0"
    and e: "fst (SpeakerThread_set_state STOPPED 5000000 SpeakerThread_init world0) =
      SpeakerThread_init\<lparr>priv_state := STOPPED, priv_state_changed := Some 5000000,
        priv_event := True\<rparr>"
    using signal_idempotent [of STOPPED 5000000 "[20000000, 30000000]" SpeakerThread_init world0] a
    by simp_all
  have f: "SpeakerThread_set_state STOPPED 20000000
      \<lparr>priv_state = STOPPED, priv_state_changed = Some 5000000, priv_event = False\<rparr> world0 =
      (\<lparr>priv_state = STOPPED, priv_state_changed = Some 5000000, priv_event = False\<rparr>, world0)"
    using signal_idempotent [of STOPPED 20000000 "[]"
        "\<lparr>priv_state = STOPPED, priv_state_changed = Some 5000000, priv_event = False\<rparr>" world0] b
    by simp
  have g: "signal_repeatedly STOPPED [5000000, 20000000, 30000000] SpeakerThread_init world0 =
      (SpeakerThread_init\<lparr>priv_state := STOPPED, priv_state_changed := Some 5000000,
         priv_event := True\<rparr>,
       \<lparr>calls = [], logged = [(INFO, ''Chromecast state changed to STOPPED'')]\<rparr>)"
    using c d e by (simp add: prod_eq_iff)
  show ?thesis using f g by (simp add: SpeakerThread_init_def)
qed

subsection \<open>The branches of a pass\<close>

text \<open>
  C9. A pass of the loop that finds the state Playing calls \<^verbatim>\<open>switch_on\<close>, and a pass that
  finds the state Inactive calls \<^verbatim>\<open>switch_off\<close>, whatever the clock reading of the pass
  and whatever the stored change time.
\<close>

theorem playing_on_inactive_off:
  "(priv_state t = PLAYING \<longrightarrow> snd (run_pass now t) = Some switch_on) \<and>
   (priv_state t = INACTIVE \<longrightarrow> snd (run_pass now t) = Some switch_off)"
  by (simp add: run_pass_def Let_def PLAYING_def INACTIVE_def)

theorem playing_on_inactive_off_witness:
  "snd (run_pass 7000000 \<lparr>priv_state = PLAYING, priv_state_changed = Some 6000000,
                           priv_event = True\<rparr>) = Some switch_on \<and>
   snd (run_pass 7000000 \<lparr>priv_state = INACTIVE, priv_state_changed = Some 6000000,
                           priv_event = False\<rparr>) = Some switch_off"
  using playing_on_inactive_off [of "\<lparr>priv_state = PLAYING, priv_state_changed = Some 6000000,
      priv_event = True\<rparr>" 7000000]
    playing_on_inactive_off [of "\<lparr>priv_state = INACTIVE, priv_state_changed = Some 6000000,
      priv_event = False\<rparr>" 7000000]
  by (simp add: PLAYING_def INACTIVE_def)

text \<open>
  C7. While the change time is unset, \<^verbatim>\<open>state_changed_seconds_ago\<close> returns a value
  strictly greater than the grace period \<^verbatim>\<open>TIMEOUT\<close> of 60 seconds. A pass of the loop on the
  freshly constructed thread therefore calls \<^verbatim>\<open>switch_off\<close>, at any clock reading. When
  Inactive is signalled on the fresh thread, the event is set (the loop is woken) and the pass
  that follows calls \<^verbatim>\<open>switch_off\<close>, at any clock reading.
\<close>

theorem cold_start_switches_off:
  "(priv_state_changed t = None \<longrightarrow> TIMEOUT < state_changed_seconds_ago now t) \<and>
   priv_state_changed SpeakerThread_init = None \<and>
   snd (run_pass now SpeakerThread_init) = Some switch_off \<and>
   priv_event (fst (signal_inactive T SpeakerThread_init w)) \<and>
   snd (run_pass now (fst (signal_inactive T SpeakerThread_init w))) = Some switch_off"
  by (simp add: state_changed_seconds_ago_def run_pass_def Let_def SpeakerThread_init_def
      signal_inactive_def SpeakerThread_set_state_def TIMEOUT_def PLAYING_def INACTIVE_def)

theorem cold_start_switches_off_witness:
  "TIMEOUT < state_changed_seconds_ago 3000000 SpeakerThread_init \<and>
   snd (run_pass 3000000 SpeakerThread_init) = Some switch_off \<and>
   snd (run_pass 3000000 (fst (signal_inactive 2000000 SpeakerThread_init world0))) =
     Some switch_off"
  using cold_start_switches_off [of SpeakerThread_init 3000000 2000000 world0]
  by simp

subsection \<open>The callbacks of the receiver\<close>

text \<open>
  C8. Each of the three callbacks, whatever status it is handed, signals the thread with the
  same state: Inactive if the receiver session is not active, else Playing if media is
  playing, else Stopped.
\<close>

theorem callbacks_emit_derived_signal:
  "new_media_status s1 now c w =
     (c\<lparr>speaker_thread :=
          fst (SpeakerThread_set_state (derived_signal (is_active c) (is_playing c)) now
                 (speaker_thread c) w)\<rparr>,
      snd (SpeakerThread_set_state (derived_signal (is_active c) (is_playing c)) now
             (speaker_thread c) w)) \<and>
   new_cast_status s2 now c w = new_media_status s1 now c w \<and>
   new_connection_status s3 now c w = new_media_status s1 now c w"
  by (simp add: new_media_status_def new_cast_status_def new_connection_status_def
      signal_speakers_def derived_signal_def signal_inactive_def signal_playing_def
      signal_stopped_def case_prod_beta)

end
